theory Spec2Isabelle
  imports Complex_Main
begin

section \<open>Numbers, rectangles and configuration\<close>

text \<open>
  The game computes with Python numbers read from a JSON file (\<open>int\<close> or \<open>float\<close>).
  They are modelled as exact rationals. A \<open>pygame.Rect\<close> stores four integers. A
  coordinate assigned to a Rect attribute is rounded to the nearest integer, halves away
  from zero (\<open>to_pos\<close>: 244.8 gives 245, 157.5 gives 158, -100.5 gives -101). A size handed
  to \<open>transform.scale\<close> loses its fractional part (\<open>to_px\<close>).
\<close>

definition to_pos :: "rat \<Rightarrow> int" where
  "to_pos q = (if 0 \<le> q then \<lfloor>q + 1 / 2\<rfloor> else \<lceil>q - 1 / 2\<rceil>)"

definition to_px :: "rat \<Rightarrow> int" where
  "to_px q = (if 0 \<le> q then \<lfloor>q\<rfloor> else \<lceil>q\<rceil>)"

record rect =
  rect_x :: int
  rect_y :: int
  rect_w :: int
  rect_h :: int

definition rect_left :: "rect \<Rightarrow> int" where
  "rect_left r = rect_x r"

definition rect_right :: "rect \<Rightarrow> int" where
  "rect_right r = rect_x r + rect_w r"

definition rect_top :: "rect \<Rightarrow> int" where
  "rect_top r = rect_y r"

definition rect_bottom :: "rect \<Rightarrow> int" where
  "rect_bottom r = rect_y r + rect_h r"

text \<open>Assignments to the virtual attributes \<open>top\<close>, \<open>bottom\<close>, \<open>x\<close>, \<open>y\<close> move the
  rectangle and keep its size.\<close>

definition set_rect_x :: "rat \<Rightarrow> rect \<Rightarrow> rect" where
  "set_rect_x v r = r\<lparr>rect_x := to_pos v\<rparr>"

definition set_rect_y :: "rat \<Rightarrow> rect \<Rightarrow> rect" where
  "set_rect_y v r = r\<lparr>rect_y := to_pos v\<rparr>"

definition set_rect_top :: "rat \<Rightarrow> rect \<Rightarrow> rect" where
  "set_rect_top v r = r\<lparr>rect_y := to_pos v\<rparr>"

definition set_rect_bottom :: "rat \<Rightarrow> rect \<Rightarrow> rect" where
  "set_rect_bottom v r = r\<lparr>rect_y := to_pos v - rect_h r\<rparr>"

text \<open>\<open>image.get_rect()\<close> of a surface scaled to \<open>(w, h)\<close>, and the same with
  \<open>center=(x, y)\<close>, \<open>rect.topleft = (x, y)\<close> and \<open>rect.bottomleft = (x, y)\<close>.\<close>

definition get_rect :: "rat \<Rightarrow> rat \<Rightarrow> rect" where
  "get_rect w h = \<lparr>rect_x = 0, rect_y = 0, rect_w = to_px w, rect_h = to_px h\<rparr>"

definition get_rect_center :: "rat \<Rightarrow> rat \<Rightarrow> rat \<Rightarrow> rat \<Rightarrow> rect" where
  "get_rect_center w h x y =
     (let r = get_rect w h
      in r\<lparr>rect_x := to_pos x - rect_w r div 2, rect_y := to_pos y - rect_h r div 2\<rparr>)"

definition set_topleft :: "rat \<Rightarrow> rat \<Rightarrow> rect \<Rightarrow> rect" where
  "set_topleft x y r = r\<lparr>rect_x := to_pos x, rect_y := to_pos y\<rparr>"

definition set_bottomleft :: "rat \<Rightarrow> rat \<Rightarrow> rect \<Rightarrow> rect" where
  "set_bottomleft x y r = r\<lparr>rect_x := to_pos x, rect_y := to_pos y - rect_h r\<rparr>"

text \<open>\<open>Rect.colliderect\<close>: rectangles of zero width or height collide with nothing;
  otherwise the two must overlap strictly on both axes.\<close>

definition colliderect :: "rect \<Rightarrow> rect \<Rightarrow> bool" where
  "colliderect a b =
     (if rect_w a = 0 \<or> rect_h a = 0 \<or> rect_w b = 0 \<or> rect_h b = 0 then False
      else min (rect_x a) (rect_x a + rect_w a) < max (rect_x b) (rect_x b + rect_w b)
         \<and> min (rect_y a) (rect_y a + rect_h a) < max (rect_y b) (rect_y b + rect_h b)
         \<and> max (rect_x a) (rect_x a + rect_w a) > min (rect_x b) (rect_x b + rect_w b)
         \<and> max (rect_y a) (rect_y a + rect_h a) > min (rect_y b) (rect_y b + rect_h b))"

subsection \<open>Config\<close>

text \<open>
  The parsed JSON document is a dictionary of groups, each a dictionary from keys to
  numbers (the string-valued keys only feed the renderer and are left out).
  \<open>config_source\<close> lists what \<open>open\<close> followed by \<open>json.load\<close> can meet: no file, a file
  that cannot be opened, text that is not JSON, or a parsed document.
\<close>

type_synonym settings = "string \<rightharpoonup> rat"

type_synonym config_data = "string \<rightharpoonup> settings"

datatype config_source = Absent | Unreadable | Malformed | Parsed config_data

datatype error = PermissionError | JSONDecodeError | ValueError

text \<open>\<open>Config.load_config\<close>: only \<open>FileNotFoundError\<close> is caught.\<close>

fun load_config :: "config_source \<Rightarrow> error + config_data" where
  "load_config Absent = Inr Map.empty"
| "load_config Unreadable = Inl PermissionError"
| "load_config Malformed = Inl JSONDecodeError"
| "load_config (Parsed d) = Inr d"

text \<open>\<open>Config.get(key)\<close> is \<open>self.data.get(key, {})\<close>; \<open>dict_get\<close> is \<open>dict.get(k, default)\<close>.\<close>

definition Config_get :: "config_data \<Rightarrow> string \<Rightarrow> settings" where
  "Config_get d key = (case d key of None \<Rightarrow> Map.empty | Some s \<Rightarrow> s)"

definition dict_get :: "settings \<Rightarrow> string \<Rightarrow> rat \<Rightarrow> rat" where
  "dict_get s k dflt = (case s k of None \<Rightarrow> dflt | Some v \<Rightarrow> v)"

section \<open>Bird\<close>

record bird =
  bird_x :: rat
  bird_y :: rat
  bird_gravity :: rat
  bird_jump_strength :: rat
  bird_width :: rat
  bird_height :: rat
  bird_speed_y :: rat
  bird_rect :: rect

definition Bird_init :: "rat \<Rightarrow> rat \<Rightarrow> config_data \<Rightarrow> bird" where
  "Bird_init x y config =
     (let bird_config = Config_get config ''bird_settings'';
          w = dict_get bird_config ''width'' 60;
          h = dict_get bird_config ''height'' 35
      in \<lparr>bird_x = x, bird_y = y,
          bird_gravity = dict_get bird_config ''gravity'' (2 / 5),
          bird_jump_strength = dict_get bird_config ''jump_strength'' (- 6),
          bird_width = w, bird_height = h,
          bird_speed_y = 0,
          bird_rect = get_rect_center w h x y\<rparr>)"

definition Bird_update :: "bird \<Rightarrow> bird" where
  "Bird_update b =
     (let v = bird_speed_y b + bird_gravity b;
          y = bird_y b + v
      in b\<lparr>bird_speed_y := v, bird_y := y, bird_rect := set_rect_y y (bird_rect b)\<rparr>)"

definition Bird_jump :: "bird \<Rightarrow> bird" where
  "Bird_jump b = b\<lparr>bird_speed_y := bird_jump_strength b\<rparr>"

datatype bounds = Top | Bottom

definition check_bounds :: "rat \<Rightarrow> bird \<Rightarrow> bounds option \<times> bird" where
  "check_bounds screen_height b =
     (if rect_top (bird_rect b) \<le> 0 then
        (Some Top, b\<lparr>bird_rect := set_rect_top 0 (bird_rect b), bird_y := 0, bird_speed_y := 0\<rparr>)
      else if of_int (rect_bottom (bird_rect b)) \<ge> screen_height then
        (let r = set_rect_bottom screen_height (bird_rect b)
         in (Some Bottom, b\<lparr>bird_rect := r, bird_y := screen_height - of_int (rect_h r)\<rparr>))
      else (None, b))"

section \<open>Wall\<close>

record wall =
  wall_x :: rat
  wall_y :: rat
  wall_speed :: rat
  wall_rect :: rect
  passed :: bool
  flip :: bool

definition Wall_init :: "rat \<Rightarrow> rat \<Rightarrow> config_data \<Rightarrow> bool \<Rightarrow> wall" where
  "Wall_init x y config flp =
     (let wall_config = Config_get config ''wall_settings'';
          speed = dict_get wall_config ''speed'' 2;
          width = dict_get wall_config ''width'' 100;
          height = dict_get wall_config ''height'' 500;
          r = get_rect width height
      in \<lparr>wall_x = x, wall_y = y, wall_speed = speed,
          wall_rect = (if flp then set_bottomleft x y r else set_topleft x y r),
          passed = False, flip = flp\<rparr>)"

definition Wall_update :: "wall \<Rightarrow> wall" where
  "Wall_update w =
     (let x = wall_x w - wall_speed w
      in w\<lparr>wall_x := x, wall_rect := set_rect_x x (wall_rect w)\<rparr>)"

definition Wall_is_offscreen :: "wall \<Rightarrow> bool" where
  "Wall_is_offscreen w = (rect_right (wall_rect w) < 0)"

definition Wall_check_collision :: "wall \<Rightarrow> rect \<Rightarrow> bool" where
  "Wall_check_collision w brect = colliderect (wall_rect w) brect"

text \<open>\<open>Wall.check_pass\<close> returns its answer together with the wall, whose flag it may set.\<close>

definition Wall_check_pass :: "rect \<Rightarrow> wall \<Rightarrow> bool \<times> wall" where
  "Wall_check_pass brect w =
     (if \<not> passed w \<and> rect_right (wall_rect w) < rect_left brect
      then (True, w\<lparr>passed := True\<rparr>)
      else (False, w))"

section \<open>WallPair\<close>

text \<open>
  \<open>random.randint(a, b)\<close> belongs to the standard library. It is modelled by its documented
  contract: the bounds must be whole numbers and the range non-empty, otherwise the call
  raises; the result is a whole number \<open>N\<close> with \<open>a \<le> N \<le> b\<close>, each one equally likely. The
  generator's state is a supplied number \<open>seed\<close>: of the \<open>b - a + 1\<close> seeds from 0 on, each
  yields another member of the range.
\<close>

definition randint :: "rat \<Rightarrow> rat \<Rightarrow> nat \<Rightarrow> error + int" where
  "randint a b seed =
     (if of_int \<lfloor>a\<rfloor> \<noteq> a \<or> of_int \<lfloor>b\<rfloor> \<noteq> b \<or> b < a then Inl ValueError
      else Inr (\<lfloor>a\<rfloor> + int (seed mod nat (\<lfloor>b\<rfloor> - \<lfloor>a\<rfloor> + 1))))"

text \<open>\<open>walls\<close> is the list \<open>[top_wall, bottom_wall]\<close>; the attributes \<open>top_wall\<close> and
  \<open>bottom_wall\<close> name the same two objects, so they are read off the list.\<close>

record wall_pair =
  gap_height :: rat
  min_height :: rat
  max_height :: rat
  wall_height :: int
  pair_screen_height :: rat
  walls :: "wall list"
  scored :: bool

definition top_wall :: "wall_pair \<Rightarrow> wall" where
  "top_wall p = walls p ! 0"

definition bottom_wall :: "wall_pair \<Rightarrow> wall" where
  "bottom_wall p = walls p ! 1"

definition WallPair_init :: "rat \<Rightarrow> rat \<Rightarrow> config_data \<Rightarrow> nat \<Rightarrow> error + wall_pair" where
  "WallPair_init x screen_height config seed =
     (let wall_config = Config_get config ''wall_settings'';
          gap = dict_get wall_config ''gap_height'' 200;
          mn = dict_get wall_config ''min_height'' 100;
          mx = dict_get wall_config ''max_height'' 400
      in case randint mn mx seed of
           Inl e \<Rightarrow> Inl e
         | Inr h \<Rightarrow>
             Inr \<lparr>gap_height = gap, min_height = mn, max_height = mx, wall_height = h,
                  pair_screen_height = screen_height,
                  walls = [Wall_init x (of_int h) config True,
                           Wall_init x (of_int h + gap) config False],
                  scored = False\<rparr>)"

definition WallPair_update :: "wall_pair \<Rightarrow> wall_pair" where
  "WallPair_update p = p\<lparr>walls := map Wall_update (walls p)\<rparr>"

definition WallPair_check_collisions :: "rect \<Rightarrow> wall_pair \<Rightarrow> bool" where
  "WallPair_check_collisions brect p =
     list_ex (\<lambda>w. Wall_check_collision w brect) (walls p)"

text \<open>The loop of \<open>WallPair.check_pass\<close> over the walls: it stops at the first wall that
  fires and leaves the later ones untouched.\<close>

fun check_pass_walls :: "rect \<Rightarrow> wall list \<Rightarrow> bool \<times> wall list" where
  "check_pass_walls brect [] = (False, [])"
| "check_pass_walls brect (w # ws) =
     (if \<not> passed w then
        (case Wall_check_pass brect w of
           (True, w') \<Rightarrow> (True, w' # ws)
         | (False, w') \<Rightarrow>
             (case check_pass_walls brect ws of (fired, ws') \<Rightarrow> (fired, w' # ws')))
      else (case check_pass_walls brect ws of (fired, ws') \<Rightarrow> (fired, w # ws')))"

definition WallPair_check_pass :: "rect \<Rightarrow> wall_pair \<Rightarrow> bool \<times> wall_pair" where
  "WallPair_check_pass brect p =
     (if \<not> scored p then
        (case check_pass_walls brect (walls p) of
           (True, ws) \<Rightarrow> (True, p\<lparr>walls := ws, scored := True\<rparr>)
         | (False, ws) \<Rightarrow> (False, p\<lparr>walls := ws\<rparr>))
      else (False, p))"

definition WallPair_is_offscreen :: "wall_pair \<Rightarrow> bool" where
  "WallPair_is_offscreen p = list_all Wall_is_offscreen (walls p)"

section \<open>Game\<close>

datatype status = StatusGame | StatusMenu

record game =
  g_config :: config_data
  g_width :: rat
  g_height :: rat
  g_bird :: bird
  wall_pairs :: "wall_pair list"
  game_status :: status
  score :: int
  running :: bool

text \<open>\<open>start_x\<close> and \<open>start_y\<close> as \<open>Game.__init__\<close> and \<open>Game.restart_game\<close> read them;
  \<open>height // 2\<close> is floor division.\<close>

definition start_x :: "config_data \<Rightarrow> rat" where
  "start_x config = dict_get (Config_get config ''bird_settings'') ''start_x'' 100"

definition start_y :: "config_data \<Rightarrow> rat \<Rightarrow> rat" where
  "start_y config height =
     dict_get (Config_get config ''bird_settings'') ''start_y'' (of_int \<lfloor>height / 2\<rfloor>)"

text \<open>\<open>Game.__init__\<close>, the simulation state only (window, clock, fonts and texts belong to
  the renderer). An exception of \<open>Config()\<close> leaves the constructor.\<close>

definition Game_init :: "config_source \<Rightarrow> error + game" where
  "Game_init src =
     (case load_config src of
        Inl e \<Rightarrow> Inl e
      | Inr config \<Rightarrow>
          (let game_settings = Config_get config ''game_settings'';
               width = dict_get game_settings ''window_width'' 600;
               height = dict_get game_settings ''window_height'' 500
           in Inr \<lparr>g_config = config, g_width = width, g_height = height,
                   g_bird = Bird_init (start_x config) (start_y config height) config,
                   wall_pairs = [], game_status = StatusGame, score = 0, running = True\<rparr>))"

definition restart_game :: "game \<Rightarrow> game" where
  "restart_game g =
     g\<lparr>game_status := StatusGame,
       g_bird := Bird_init (start_x (g_config g)) (start_y (g_config g) (g_height g)) (g_config g),
       wall_pairs := [],
       score := 0\<rparr>"

text \<open>The events \<open>handle_events\<close> distinguishes. The spawn timer event carries the seed
  of the draw its \<open>WallPair\<close> makes.\<close>

datatype event = QUIT | KEYDOWN_SPACE | KEYDOWN_OTHER | SPAWN_WALL nat | OTHER_EVENT

fun handle_event :: "event \<Rightarrow> game \<Rightarrow> error + game" where
  "handle_event QUIT g = Inr (g\<lparr>running := False\<rparr>)"
| "handle_event KEYDOWN_SPACE g =
     (case game_status g of
        StatusGame \<Rightarrow> Inr (g\<lparr>g_bird := Bird_jump (g_bird g)\<rparr>)
      | StatusMenu \<Rightarrow> Inr (restart_game g))"
| "handle_event KEYDOWN_OTHER g = Inr g"
| "handle_event (SPAWN_WALL seed) g =
     (if game_status g = StatusGame then
        (case WallPair_init (g_width g) (g_height g) (g_config g) seed of
           Inl e \<Rightarrow> Inl e
         | Inr p \<Rightarrow> Inr (g\<lparr>wall_pairs := wall_pairs g @ [p]\<rparr>))
      else Inr g)"
| "handle_event OTHER_EVENT g = Inr g"


text \<open>
  The loop of \<open>update_game_logic\<close> over a copy of \<open>wall_pairs\<close>. It returns the pairs that
  stay in the list (\<open>remove\<close> takes out the pair at hand, the objects being compared by
  identity), the status and the score.
\<close>

fun pairs_loop :: "rect \<Rightarrow> wall_pair list \<Rightarrow> status \<Rightarrow> int \<Rightarrow> wall_pair list \<times> status \<times> int" where
  "pairs_loop brect [] st sc = ([], st, sc)"
| "pairs_loop brect (p # ps) st sc =
     (let p1 = WallPair_update p;
          st1 = (if WallPair_check_collisions brect p1 then StatusMenu else st);
          (fired, p2) = WallPair_check_pass brect p1;
          sc1 = (if fired then sc + 1 else sc);
          (ps', st', sc') = pairs_loop brect ps st1 sc1
      in (if WallPair_is_offscreen p2 then ps' else p2 # ps', st', sc'))"

definition update_game_logic :: "game \<Rightarrow> game" where
  "update_game_logic g =
     (if game_status g = StatusGame then
        (let (bounds_result, b) = check_bounds (g_height g) (Bird_update (g_bird g));
             st = (if bounds_result = Some Bottom then StatusMenu else game_status g);
             (ps, st', sc) = pairs_loop (bird_rect b) (wall_pairs g) st (score g)
         in g\<lparr>g_bird := b, wall_pairs := ps, game_status := st', score := sc\<rparr>)
      else g)"

section \<open>Lifetimes\<close>

text \<open>
  The life of an object is the sequence of the mutating method calls made on it. The
  runners below apply such a sequence; for \<open>check_pass\<close> they collect the answers in call
  order.
\<close>

datatype wall_op = WUpdate | WCheckPass rect

fun run_wall :: "wall_op list \<Rightarrow> wall \<Rightarrow> bool list \<times> wall" where
  "run_wall [] w = ([], w)"
| "run_wall (WUpdate # ops) w = run_wall ops (Wall_update w)"
| "run_wall (WCheckPass r # ops) w =
     (case Wall_check_pass r w of
        (b, w') \<Rightarrow> (case run_wall ops w' of (bs, w'') \<Rightarrow> (b # bs, w'')))"

text \<open>What the spec says of \<open>Obstacle.checkPass\<close>: the geometric condition seen by each call,
  and the answers that fire at the first call seeing it and never again.\<close>

fun pass_conds :: "wall_op list \<Rightarrow> wall \<Rightarrow> bool list" where
  "pass_conds [] w = []"
| "pass_conds (WUpdate # ops) w = pass_conds ops (Wall_update w)"
| "pass_conds (WCheckPass r # ops) w =
     (rect_right (wall_rect w) < rect_left r) # pass_conds ops w"

fun first_only :: "bool list \<Rightarrow> bool list" where
  "first_only [] = []"
| "first_only (b # bs) = (if b then True # map (\<lambda>_. False) bs else False # first_only bs)"

datatype pair_op = PUpdate | PCheckPass rect

fun run_pair :: "pair_op list \<Rightarrow> wall_pair \<Rightarrow> bool list \<times> wall_pair" where
  "run_pair [] p = ([], p)"
| "run_pair (PUpdate # ops) p = run_pair ops (WallPair_update p)"
| "run_pair (PCheckPass r # ops) p =
     (case WallPair_check_pass r p of
        (b, p') \<Rightarrow> (case run_pair ops p' of (bs, p'') \<Rightarrow> (b # bs, p'')))"



text \<open>The number of pairs of a list that have not yet counted for the score.\<close>

definition unscored :: "wall_pair list \<Rightarrow> nat" where
  "unscored ps = length (filter (\<lambda>p. \<not> scored p) ps)"

section \<open>Scenarios\<close>

text \<open>Concrete objects for the worked examples: the bird's rectangle at the default start
  position, and a bottom wall freshly spawned at the right edge of the default window.\<close>

definition avatar_rect :: rect where
  "avatar_rect = bird_rect (Bird_init 100 250 Map.empty)"

definition far_wall :: wall where
  "far_wall = Wall_init 600 300 Map.empty False"


text \<open>A configuration whose gap is smaller than the minimal wall height, the pair it
  spawns for seed 7, and a game that has ended with that pair on screen.\<close>

definition narrow_gap_config :: config_data where
  "narrow_gap_config = [''wall_settings'' \<mapsto> [''gap_height'' \<mapsto> 50]]"

definition narrow_gap_pair :: wall_pair where
  "narrow_gap_pair =
     \<lparr>gap_height = 50, min_height = 100, max_height = 400, wall_height = 107,
      pair_screen_height = 500,
      walls = [\<lparr>wall_x = 600, wall_y = 107, wall_speed = 2,
                wall_rect = \<lparr>rect_x = 600, rect_y = - 393, rect_w = 100, rect_h = 500\<rparr>,
                passed = False, flip = True\<rparr>,
               \<lparr>wall_x = 600, wall_y = 157, wall_speed = 2,
                wall_rect = \<lparr>rect_x = 600, rect_y = 157, rect_w = 100, rect_h = 500\<rparr>,
                passed = False, flip = False\<rparr>],
      scored = False\<rparr>"

text \<open>The same with a gap of 50.5: the bottom wall's top edge, 157.5, is stored as 158.\<close>

definition half_gap_config :: config_data where
  "half_gap_config = [''wall_settings'' \<mapsto> [''gap_height'' \<mapsto> 101 / 2]]"

definition half_gap_pair :: wall_pair where
  "half_gap_pair =
     \<lparr>gap_height = 101 / 2, min_height = 100, max_height = 400, wall_height = 107,
      pair_screen_height = 500,
      walls = [\<lparr>wall_x = 600, wall_y = 107, wall_speed = 2,
                wall_rect = \<lparr>rect_x = 600, rect_y = - 393, rect_w = 100, rect_h = 500\<rparr>,
                passed = False, flip = True\<rparr>,
               \<lparr>wall_x = 600, wall_y = 315 / 2, wall_speed = 2,
                wall_rect = \<lparr>rect_x = 600, rect_y = 158, rect_w = 100, rect_h = 500\<rparr>,
                passed = False, flip = False\<rparr>],
      scored = False\<rparr>"

definition ended_game :: game where
  "ended_game =
     \<lparr>g_config = [''bird_settings'' \<mapsto> [''start_x'' \<mapsto> 120, ''start_y'' \<mapsto> 200]],
      g_width = 600, g_height = 500,
      g_bird = Bird_update (Bird_init 120 480 Map.empty),
      wall_pairs = [narrow_gap_pair],
      game_status = StatusMenu, score = 3, running = True\<rparr>"

text \<open>
  Two games in the default window. In \<open>floor_game\<close> the bird is one update above the floor;
  an already scored pair is about to leave the screen and a second pair is about to be
  passed. In \<open>hit_game\<close> the bird flies in the middle, the first pair is about to touch it
  and a second pair follows.
\<close>

definition gone_pair :: wall_pair where
  "gone_pair =
     \<lparr>gap_height = 200, min_height = 100, max_height = 400, wall_height = 250,
      pair_screen_height = 500,
      walls = [(Wall_init (- 100) 250 Map.empty True)\<lparr>passed := True\<rparr>,
               Wall_init (- 100) 450 Map.empty False],
      scored = True\<rparr>"

definition pass_pair :: wall_pair where
  "pass_pair =
     \<lparr>gap_height = 200, min_height = 100, max_height = 400, wall_height = 250,
      pair_screen_height = 500,
      walls = [Wall_init (- 30) 250 Map.empty True, Wall_init (- 30) 450 Map.empty False],
      scored = False\<rparr>"

definition floor_game :: game where
  "floor_game =
     \<lparr>g_config = Map.empty, g_width = 600, g_height = 500,
      g_bird = Bird_init 100 480 Map.empty,
      wall_pairs = [gone_pair, pass_pair],
      game_status = StatusGame, score = 0, running = True\<rparr>"

definition hit_pair :: wall_pair where
  "hit_pair =
     \<lparr>gap_height = 200, min_height = 100, max_height = 400, wall_height = 300,
      pair_screen_height = 500,
      walls = [Wall_init 130 300 Map.empty True, Wall_init 130 500 Map.empty False],
      scored = False\<rparr>"

definition later_pair :: wall_pair where
  "later_pair =
     \<lparr>gap_height = 200, min_height = 100, max_height = 400, wall_height = 150,
      pair_screen_height = 500,
      walls = [Wall_init 310 150 Map.empty True, Wall_init 310 350 Map.empty False],
      scored = False\<rparr>"

definition hit_game :: game where
  "hit_game =
     \<lparr>g_config = Map.empty, g_width = 600, g_height = 500,
      g_bird = Bird_init 100 250 Map.empty,
      wall_pairs = [hit_pair, later_pair],
      game_status = StatusGame, score = 0, running = True\<rparr>"

section \<open>Gravity and jumping\<close>

lemma Bird_update_gravity [simp]: "bird_gravity (Bird_update b) = bird_gravity b"
  by (simp add: Bird_update_def Let_def)

lemma Bird_update_speed: "bird_speed_y (Bird_update b) = bird_speed_y b + bird_gravity b"
  by (simp add: Bird_update_def Let_def)


lemma funpow_update_gravity [simp]: "bird_gravity ((Bird_update ^^ n) b) = bird_gravity b"
  by (induction n) simp_all

lemma funpow_update_speed:
  "bird_speed_y ((Bird_update ^^ n) b) = bird_speed_y b + of_nat n * bird_gravity b"
  by (induction n) (simp_all add: Bird_update_speed algebra_simps)


lemma Bird_update_jump_strength [simp]:
  "bird_jump_strength (Bird_update b) = bird_jump_strength b"
  by (simp add: Bird_update_def Let_def)

lemma funpow_update_jump_strength [simp]:
  "bird_jump_strength ((Bird_update ^^ n) b) = bird_jump_strength b"
  by (induction n) simp_all

lemma Bird_init_defaults:
  "bird_gravity (Bird_init x y Map.empty) = 2 / 5"
  "bird_jump_strength (Bird_init x y Map.empty) = - 6"
  "bird_speed_y (Bird_init x y config) = 0"
  "bird_x (Bird_init x y config) = x"
  "bird_y (Bird_init x y config) = y"
  by (simp_all add: Bird_init_def Config_get_def dict_get_def Let_def)



section \<open>Walls: scrolling and passing\<close>

lemma to_px_of_int [simp]: "to_px (of_int k) = k"
  by (simp add: to_px_def)

lemma to_pos_of_int [simp]: "to_pos (of_int k) = k"
proof -
  have "\<lfloor>rat_of_int k + 1 / 2\<rfloor> = k" and "\<lceil>rat_of_int k - 1 / 2\<rceil> = k"
    by (simp_all add: floor_eq_iff ceiling_eq_iff)
  then show ?thesis by (simp add: to_pos_def)
qed

lemma to_pos_numeral [simp]:
  "to_pos (numeral k) = numeral k" "to_pos 0 = 0" "to_pos (- numeral k) = - numeral k"
  using to_pos_of_int [of "numeral k"] to_pos_of_int [of 0] to_pos_of_int [of "- numeral k"]
  by simp_all

lemma to_pos_fractions:
  "to_pos (2402 / 5) = 480" "to_pos (1252 / 5) = 250" "to_pos (1224 / 5) = 245"
  "to_pos (1253 / 5) = 251"
  by (simp_all add: to_pos_def floor_eq_iff)

lemma to_px_numeral [simp]: "to_px (numeral k) = numeral k" "to_px 0 = 0"
  by (simp_all add: to_px_def)

lemma Wall_update_fields [simp]:
  "wall_speed (Wall_update w) = wall_speed w"
  "wall_x (Wall_update w) = wall_x w - wall_speed w"
  "passed (Wall_update w) = passed w"
  "rect_w (wall_rect (Wall_update w)) = rect_w (wall_rect w)"
  "rect_x (wall_rect (Wall_update w)) = to_pos (wall_x w - wall_speed w)"
  by (simp_all add: Wall_update_def Let_def set_rect_x_def)

lemma funpow_Wall_update_speed [simp]: "wall_speed ((Wall_update ^^ n) w) = wall_speed w"
  by (induction n) simp_all

lemma funpow_Wall_update_w [simp]:
  "rect_w (wall_rect ((Wall_update ^^ n) w)) = rect_w (wall_rect w)"
  by (induction n) simp_all

lemma funpow_Wall_update_x:
  "wall_x ((Wall_update ^^ n) w) = wall_x w - of_nat n * wall_speed w"
  by (induction n) (simp_all add: algebra_simps)

lemma funpow_Wall_update_rect_x:
  "0 < n \<Longrightarrow> rect_x (wall_rect ((Wall_update ^^ n) w)) = to_pos (wall_x w - of_nat n * wall_speed w)"
  by (cases n) (simp_all add: funpow_Wall_update_x algebra_simps)

lemma Wall_init_default:
  "wall_x (Wall_init x y Map.empty flp) = x"
  "wall_speed (Wall_init x y Map.empty flp) = 2"
  "rect_w (wall_rect (Wall_init x y Map.empty flp)) = 100"
  "rect_h (wall_rect (Wall_init x y Map.empty flp)) = 500"
  "rect_x (wall_rect (Wall_init x y Map.empty flp)) = to_pos x"
  "passed (Wall_init x y Map.empty flp) = False"
  by (simp_all add: Wall_init_def Config_get_def dict_get_def Let_def get_rect_def
      set_bottomleft_def set_topleft_def)

text \<open>
  C9 (as amended). A wall spawned at \<open>x = 600\<close> with the default speed 2 and width 100 has
  its right edge at \<open>700 - 2n\<close> after \<open>n\<close> updates, so \<open>is_offscreen\<close> (right edge \<open>< 0\<close>) is
  false up to update 350 and true from update 351 on.
\<close>

theorem is_offscreen_from_tick_351:
  "Wall_is_offscreen ((Wall_update ^^ n) (Wall_init 600 y Map.empty flp)) \<longleftrightarrow> 351 \<le> n"
proof -
  let ?w = "(Wall_update ^^ n) (Wall_init 600 y Map.empty flp)"
  have "600 - rat_of_nat n * 2 = of_int (600 - 2 * int n)" by simp
  then have px: "to_pos (600 - rat_of_nat n * 2) = 600 - 2 * int n"
    by (simp only: to_pos_of_int)
  have "rect_x (wall_rect ?w) = 600 - 2 * int n"
  proof (cases "n = 0")
    case True
    then show ?thesis by (simp add: Wall_init_default)
  next
    case False
    then show ?thesis
      by (simp add: funpow_Wall_update_rect_x Wall_init_default px del: funpow.simps)
  qed
  then have "rect_right (wall_rect ?w) = 700 - 2 * int n"
    by (simp add: rect_right_def Wall_init_default)
  then show ?thesis
    unfolding Wall_is_offscreen_def by (simp only:) arith
qed

text \<open>The claim's tick 301 is too early: the wall's right edge is then at 98.\<close>

theorem not_offscreen_at_tick_301:
  "\<not> Wall_is_offscreen ((Wall_update ^^ 301) (Wall_init 600 300 Map.empty False))"
proof -
  let ?w = "(Wall_update ^^ 301) (Wall_init 600 300 Map.empty False)"
  have "rect_x (wall_rect ?w) = to_pos (600 - of_nat 301 * 2)"
    by (simp add: funpow_Wall_update_rect_x Wall_init_default del: funpow.simps)
  then have "rect_right (wall_rect ?w) = 98"
    by (simp add: rect_right_def Wall_init_default)
  then show ?thesis
    by (simp add: Wall_is_offscreen_def)
qed

lemma Wall_check_pass_fst:
  "fst (Wall_check_pass r w) \<longleftrightarrow> \<not> passed w \<and> rect_right (wall_rect w) < rect_left r"
  by (simp add: Wall_check_pass_def)

lemma Wall_check_pass_snd:
  "snd (Wall_check_pass r w) = (if fst (Wall_check_pass r w) then w\<lparr>passed := True\<rparr> else w)"
  by (simp add: Wall_check_pass_def)

lemma Wall_update_passed_upd: "Wall_update (w\<lparr>passed := b\<rparr>) = (Wall_update w)\<lparr>passed := b\<rparr>"
  by (simp add: Wall_update_def Let_def)

lemma pass_conds_passed_upd: "pass_conds ops (w\<lparr>passed := b\<rparr>) = pass_conds ops w"
proof (induction ops arbitrary: w)
  case Nil
  show ?case by simp
next
  case (Cons op ops)
  show ?case
    by (cases op) (simp_all add: Cons.IH Wall_update_passed_upd)
qed

lemma run_wall_passed:
  "passed w \<Longrightarrow> passed (snd (run_wall ops w)) \<and> fst (run_wall ops w) = map (\<lambda>_. False) (pass_conds ops w)"
proof (induction ops arbitrary: w)
  case Nil
  then show ?case by simp
next
  case (Cons op ops)
  show ?case
  proof (cases op)
    case WUpdate
    then show ?thesis using Cons.IH [of "Wall_update w"] Cons.prems by simp
  next
    case (WCheckPass r)
    have "Wall_check_pass r w = (False, w)"
      using Cons.prems by (simp add: Wall_check_pass_def)
    then show ?thesis
      using WCheckPass Cons.IH [of w] Cons.prems by (simp add: split_beta)
  qed
qed

lemma run_wall_first_only:
  "\<not> passed w \<Longrightarrow> fst (run_wall ops w) = first_only (pass_conds ops w)"
proof (induction ops arbitrary: w)
  case Nil
  then show ?case by simp
next
  case (Cons op ops)
  show ?case
  proof (cases op)
    case WUpdate
    then show ?thesis using Cons.IH [of "Wall_update w"] Cons.prems by simp
  next
    case (WCheckPass r)
    show ?thesis
    proof (cases "rect_right (wall_rect w) < rect_left r")
      case True
      then have cp: "Wall_check_pass r w = (True, w\<lparr>passed := True\<rparr>)"
        using Cons.prems by (simp add: Wall_check_pass_def)
      have "fst (run_wall ops (w\<lparr>passed := True\<rparr>)) = map (\<lambda>_. False) (pass_conds ops w)"
        using run_wall_passed [of "w\<lparr>passed := True\<rparr>" ops]
        by (simp add: pass_conds_passed_upd)
      then show ?thesis
        using WCheckPass True cp by (simp add: split_beta)
    next
      case False
      then have cp: "Wall_check_pass r w = (False, w)"
        by (simp add: Wall_check_pass_def)
      show ?thesis
        using WCheckPass False cp Cons.IH [OF Cons.prems] by (simp add: split_beta)
    qed
  qed
qed

lemma filter_id_all_False: "filter id (map (\<lambda>_. False) bs) = []"
  by (induction bs) simp_all

lemma first_only_count: "length (filter id (first_only bs)) = (if True \<in> set bs then 1 else 0)"
  by (induction bs) (auto simp: filter_id_all_False)

lemma run_wall_count_le: "length (filter id (fst (run_wall ops w))) \<le> 1"
proof (cases "passed w")
  case True
  then show ?thesis by (simp add: run_wall_passed filter_id_all_False)
next
  case False
  then show ?thesis by (simp add: run_wall_first_only first_only_count)
qed

text \<open>
  C6 (as amended). \<open>Wall.check_pass\<close> answers true at most once in a wall's life. A call
  fires exactly when the flag \<open>passed\<close> is false and the wall's right edge is strictly left
  of the rectangle's left edge; it then sets \<open>passed\<close>. Once \<open>passed\<close> is true it stays true
  and every later call answers false. So for a wall that starts unpassed the answers are
  those of the spec (\<open>first_only\<close> of the geometric conditions): one true answer if some call
  sees the geometric condition, none otherwise.
\<close>

theorem Wall_check_pass_at_most_once:
  "(fst (Wall_check_pass r w) \<longleftrightarrow> \<not> passed w \<and> rect_right (wall_rect w) < rect_left r)
   \<and> (fst (Wall_check_pass r w) \<longrightarrow> passed (snd (Wall_check_pass r w)))
   \<and> (passed w \<longrightarrow> passed (snd (run_wall ops w)) \<and> True \<notin> set (fst (run_wall ops w)))
   \<and> (\<not> passed w \<longrightarrow> fst (run_wall ops w) = first_only (pass_conds ops w))
   \<and> length (filter id (fst (run_wall ops w))) \<le> 1
   \<and> (\<not> passed w \<longrightarrow>
        length (filter id (fst (run_wall ops w))) = (if True \<in> set (pass_conds ops w) then 1 else 0))"
proof -
  have "passed w \<Longrightarrow> True \<notin> set (fst (run_wall ops w))"
    by (auto simp: run_wall_passed)
  moreover have "length (filter id (fst (run_wall ops w))) \<le> 1"
    by (rule run_wall_count_le)
  moreover have "fst (Wall_check_pass r w) \<longrightarrow> passed (snd (Wall_check_pass r w))"
    by (simp add: Wall_check_pass_def)
  ultimately show ?thesis
    by (simp add: Wall_check_pass_fst run_wall_passed run_wall_first_only first_only_count)
qed

theorem Wall_check_pass_at_most_once_witness:
  "passed (far_wall\<lparr>passed := True\<rparr>)
   \<and> True \<notin> set (fst (run_wall [WCheckPass avatar_rect] (far_wall\<lparr>passed := True\<rparr>)))
   \<and> \<not> passed (far_wall\<lparr>wall_x := - 40\<rparr>)
   \<and> fst (run_wall [WUpdate, WCheckPass avatar_rect, WCheckPass avatar_rect]
            (far_wall\<lparr>wall_x := - 40\<rparr>)) = [True, False]"
proof -
  let ?w = "far_wall\<lparr>wall_x := - 40\<rparr>"
  let ?ops = "[WUpdate, WCheckPass avatar_rect, WCheckPass avatar_rect]"
  have p: "passed (far_wall\<lparr>passed := True\<rparr>)" and n: "\<not> passed ?w"
    by (simp_all add: far_wall_def Wall_init_def Let_def)
  have c: "pass_conds ?ops ?w = [True, True]"
    by (simp add: far_wall_def avatar_rect_def Wall_update_def Let_def
        Wall_init_def Bird_init_def Config_get_def dict_get_def get_rect_def get_rect_center_def
        set_topleft_def set_rect_x_def rect_right_def rect_left_def)
  show ?thesis
    using Wall_check_pass_at_most_once [of avatar_rect "far_wall\<lparr>passed := True\<rparr>"
        "[WCheckPass avatar_rect]"]
      Wall_check_pass_at_most_once [of avatar_rect ?w ?ops] p n c
    by simp
qed

text \<open>A wall the bird never gets past (here over two ticks) answers true zero times, not
  once.\<close>

theorem Wall_check_pass_never_fires:
  "length (filter id (fst (run_wall [WUpdate, WCheckPass avatar_rect, WUpdate, WCheckPass avatar_rect]
      far_wall))) \<noteq> 1"
  by (simp add: far_wall_def avatar_rect_def Wall_check_pass_def Wall_update_def Let_def
      Wall_init_def Bird_init_def Config_get_def dict_get_def get_rect_def get_rect_center_def
      set_topleft_def set_rect_x_def rect_right_def rect_left_def)

section \<open>Bird: velocity and bounds\<close>

lemma check_bounds_Top:
  "fst (check_bounds sh b) = Some Top \<Longrightarrow> bird_speed_y (snd (check_bounds sh b)) = 0"
  by (simp add: check_bounds_def Let_def split: if_splits)

lemma check_bounds_Bottom:
  "fst (check_bounds sh b) = Some Bottom \<Longrightarrow>
     bird_speed_y (snd (check_bounds sh b)) = bird_speed_y b"
  by (simp add: check_bounds_def Let_def split: if_splits)

lemma check_bounds_None: "fst (check_bounds sh b) = None \<Longrightarrow> snd (check_bounds sh b) = b"
  by (simp add: check_bounds_def Let_def split: if_splits)

lemma funpow_update_speed_mono:
  assumes "0 \<le> bird_gravity b" and "m \<le> n"
  shows "bird_speed_y ((Bird_update ^^ m) b) \<le> bird_speed_y ((Bird_update ^^ n) b)"
proof -
  have "rat_of_nat m \<le> rat_of_nat n" using assms(2) by simp
  then have "rat_of_nat m * bird_gravity b \<le> rat_of_nat n * bird_gravity b"
    using assms(1) by (rule mult_right_mono)
  then show ?thesis by (simp add: funpow_update_speed)
qed

text \<open>
  C3 (as amended). Each \<open>Bird.update\<close> adds the gravity to the velocity, so after \<open>n\<close> updates
  the velocity is the start velocity plus \<open>n\<close> times the gravity, and with a gravity that is
  not negative it never decreases. \<open>check_bounds\<close> resets the velocity to 0 when it answers
  \<open>'top'\<close>; when it answers \<open>'bottom'\<close> it clamps \<open>y\<close> and leaves the velocity as it was; when
  it answers \<open>None\<close> it changes nothing.
\<close>

theorem velocity_accumulates_top_resets:
  "bird_speed_y (Bird_update b) = bird_speed_y b + bird_gravity b
   \<and> bird_speed_y ((Bird_update ^^ n) b) = bird_speed_y b + of_nat n * bird_gravity b
   \<and> (0 \<le> bird_gravity b \<longrightarrow> m \<le> n \<longrightarrow>
        bird_speed_y ((Bird_update ^^ m) b) \<le> bird_speed_y ((Bird_update ^^ n) b))
   \<and> (fst (check_bounds sh b) = Some Top \<longrightarrow> bird_speed_y (snd (check_bounds sh b)) = 0)
   \<and> (fst (check_bounds sh b) = Some Bottom \<longrightarrow>
        bird_speed_y (snd (check_bounds sh b)) = bird_speed_y b)
   \<and> (fst (check_bounds sh b) = None \<longrightarrow> snd (check_bounds sh b) = b)"
  using funpow_update_speed_mono [of b m n]
  by (simp add: Bird_update_speed funpow_update_speed check_bounds_Top check_bounds_Bottom
      check_bounds_None)

lemma low_bird_eval:
  "bird_rect (Bird_update (Bird_init 100 480 Map.empty)) = \<lparr>rect_x = 70, rect_y = 480, rect_w = 60, rect_h = 35\<rparr>"
  "bird_speed_y (Bird_update (Bird_init 100 480 Map.empty)) = 2 / 5"
  "bird_y (Bird_update (Bird_init 100 480 Map.empty)) = 2402 / 5"
  by (simp_all add: Bird_update_def Bird_init_def Let_def Config_get_def dict_get_def
      get_rect_center_def get_rect_def set_rect_y_def to_pos_fractions)

theorem velocity_accumulates_top_resets_witness:
  "0 \<le> bird_gravity (Bird_init 100 10 Map.empty)
   \<and> bird_speed_y ((Bird_update ^^ 2) (Bird_init 100 10 Map.empty))
       \<le> bird_speed_y ((Bird_update ^^ 3) (Bird_init 100 10 Map.empty))
   \<and> fst (check_bounds 500 (Bird_init 100 10 Map.empty)) = Some Top
   \<and> bird_speed_y (snd (check_bounds 500 (Bird_init 100 10 Map.empty))) = 0
   \<and> fst (check_bounds 500 (Bird_update (Bird_init 100 480 Map.empty))) = Some Bottom
   \<and> bird_speed_y (snd (check_bounds 500 (Bird_update (Bird_init 100 480 Map.empty)))) = 2 / 5
   \<and> fst (check_bounds 500 (Bird_init 100 250 Map.empty)) = None
   \<and> snd (check_bounds 500 (Bird_init 100 250 Map.empty)) = Bird_init 100 250 Map.empty"
proof -
  have g: "0 \<le> bird_gravity (Bird_init 100 10 Map.empty)"
    by (simp add: Bird_init_defaults)
  have t: "fst (check_bounds 500 (Bird_init 100 10 Map.empty)) = Some Top"
    by (simp add: check_bounds_def Bird_init_def Let_def Config_get_def dict_get_def
        get_rect_center_def get_rect_def rect_top_def)
  have bt: "fst (check_bounds 500 (Bird_update (Bird_init 100 480 Map.empty))) = Some Bottom"
    by (simp add: check_bounds_def low_bird_eval rect_top_def rect_bottom_def Let_def)
  have n: "fst (check_bounds 500 (Bird_init 100 250 Map.empty)) = None"
    by (simp add: check_bounds_def Bird_init_def Let_def Config_get_def dict_get_def
        get_rect_center_def get_rect_def rect_top_def rect_bottom_def)
  show ?thesis
    using velocity_accumulates_top_resets [of "Bird_init 100 10 Map.empty" 3 2 500]
      velocity_accumulates_top_resets [of "Bird_update (Bird_init 100 480 Map.empty)" 0 0 500]
      velocity_accumulates_top_resets [of "Bird_init 100 250 Map.empty" 0 0 500]
      g t bt n
    by (simp add: low_bird_eval)
qed

text \<open>The bottom clamp does not reset the velocity: a bird one update above the floor of
  the default window is clamped with velocity 0.4.\<close>

theorem bottom_clamp_keeps_velocity:
  "fst (check_bounds 500 (Bird_update (Bird_init 100 480 Map.empty))) = Some Bottom
   \<and> bird_speed_y (snd (check_bounds 500 (Bird_update (Bird_init 100 480 Map.empty)))) \<noteq> 0"
  by (simp add: check_bounds_def low_bird_eval rect_top_def rect_bottom_def Let_def)

section \<open>Bird: the footprint and \<open>y\<close>\<close>










section \<open>Configuration\<close>

text \<open>
  C4 (as amended). When the configuration file is absent, \<open>load_config\<close> returns the empty
  dictionary, every lookup in it returns the default handed to it, and \<open>Game()\<close> starts
  with the default values. A file that is there but is not JSON, or cannot be opened, is
  not recovered: the exception leaves \<open>load_config\<close> and \<open>Game()\<close>.
\<close>

theorem absent_config_gives_defaults:
  "load_config Absent = Inr Map.empty
   \<and> dict_get (Config_get Map.empty grp) key dflt = dflt
   \<and> Game_init Absent =
       Inr \<lparr>g_config = Map.empty, g_width = 600, g_height = 500,
            g_bird = Bird_init 100 250 Map.empty, wall_pairs = [],
            game_status = StatusGame, score = 0, running = True\<rparr>
   \<and> load_config Malformed = Inl JSONDecodeError
   \<and> load_config Unreadable = Inl PermissionError
   \<and> Game_init Malformed = Inl JSONDecodeError
   \<and> Game_init Unreadable = Inl PermissionError"
  by (simp add: Game_init_def Config_get_def dict_get_def start_x_def start_y_def)

text \<open>A malformed file does not fall back to the empty configuration.\<close>

theorem malformed_config_aborts:
  "load_config Malformed \<noteq> Inr Map.empty \<and> Game_init Malformed = Inl JSONDecodeError"
  by (simp add: Game_init_def)

section \<open>Restart\<close>

lemma start_x_configured:
  "config ''bird_settings'' = Some bs \<Longrightarrow> bs ''start_x'' = Some sx \<Longrightarrow> start_x config = sx"
  by (simp add: start_x_def Config_get_def dict_get_def)

lemma start_y_configured:
  "config ''bird_settings'' = Some bs \<Longrightarrow> bs ''start_y'' = Some sy \<Longrightarrow> start_y config h = sy"
  by (simp add: start_y_def Config_get_def dict_get_def)

text \<open>
  C7. \<open>restart_game\<close> sets the score to 0, empties the list of wall pairs, sets the status to
  \<open>'game'\<close> and replaces the bird by a new one built at the configured \<open>start_x\<close> and
  \<open>start_y\<close>, with velocity 0. The space key runs it when the status is \<open>'menu'\<close>.
\<close>

theorem restart_resets_game:
  "score (restart_game g) = 0
   \<and> wall_pairs (restart_game g) = []
   \<and> game_status (restart_game g) = StatusGame
   \<and> g_bird (restart_game g) =
       Bird_init (start_x (g_config g)) (start_y (g_config g) (g_height g)) (g_config g)
   \<and> bird_x (g_bird (restart_game g)) = start_x (g_config g)
   \<and> bird_y (g_bird (restart_game g)) = start_y (g_config g) (g_height g)
   \<and> bird_speed_y (g_bird (restart_game g)) = 0
   \<and> (g_config g ''bird_settings'' = Some bs \<longrightarrow> bs ''start_x'' = Some sx \<longrightarrow>
        bird_x (g_bird (restart_game g)) = sx)
   \<and> (g_config g ''bird_settings'' = Some bs \<longrightarrow> bs ''start_y'' = Some sy \<longrightarrow>
        bird_y (g_bird (restart_game g)) = sy)
   \<and> (game_status g = StatusMenu \<longrightarrow> handle_event KEYDOWN_SPACE g = Inr (restart_game g))"
  by (simp add: restart_game_def Bird_init_defaults start_x_configured start_y_configured)

theorem restart_resets_game_witness:
  "game_status ended_game = StatusMenu
   \<and> handle_event KEYDOWN_SPACE ended_game = Inr (restart_game ended_game)
   \<and> score (restart_game ended_game) = 0
   \<and> wall_pairs (restart_game ended_game) = []
   \<and> game_status (restart_game ended_game) = StatusGame
   \<and> bird_x (g_bird (restart_game ended_game)) = 120
   \<and> bird_y (g_bird (restart_game ended_game)) = 200
   \<and> bird_speed_y (g_bird (restart_game ended_game)) = 0"
proof -
  have m: "game_status ended_game = StatusMenu"
    and c: "g_config ended_game ''bird_settings'' = Some [''start_x'' \<mapsto> 120, ''start_y'' \<mapsto> 200]"
    by (simp_all add: ended_game_def)
  have k: "[''start_x'' \<mapsto> 120 :: rat, ''start_y'' \<mapsto> 200] ''start_x'' = Some 120"
    "[''start_x'' \<mapsto> 120 :: rat, ''start_y'' \<mapsto> 200] ''start_y'' = Some 200"
    by simp_all
  note R = restart_resets_game [of ended_game "[''start_x'' \<mapsto> 120, ''start_y'' \<mapsto> 200]"
      120 200]
  from R m c k show ?thesis by blast
qed

section \<open>Spawning a pair\<close>

lemma randint_range:
  assumes "randint a b seed = Inr r"
  shows "a \<le> of_int r \<and> of_int r \<le> b"
proof -
  from assms have ia: "of_int \<lfloor>a\<rfloor> = a" and ib: "of_int \<lfloor>b\<rfloor> = b" and ab: "a \<le> b"
    and r: "r = \<lfloor>a\<rfloor> + int (seed mod nat (\<lfloor>b\<rfloor> - \<lfloor>a\<rfloor> + 1))"
    by (auto simp: randint_def split: if_splits)
  have fl: "\<lfloor>a\<rfloor> \<le> \<lfloor>b\<rfloor>" using ab by (rule floor_mono)
  then have "0 < nat (\<lfloor>b\<rfloor> - \<lfloor>a\<rfloor> + 1)" by simp
  then have "seed mod nat (\<lfloor>b\<rfloor> - \<lfloor>a\<rfloor> + 1) < nat (\<lfloor>b\<rfloor> - \<lfloor>a\<rfloor> + 1)"
    by (rule mod_less_divisor)
  then have "\<lfloor>a\<rfloor> \<le> r \<and> r \<le> \<lfloor>b\<rfloor>" using r fl by linarith
  then have "(of_int \<lfloor>a\<rfloor> :: rat) \<le> of_int r \<and> (of_int r :: rat) \<le> of_int \<lfloor>b\<rfloor>"
    by (simp only: of_int_le_iff)
  then show ?thesis using ia ib by simp
qed

lemma randint_seed_unique:
  assumes "of_int \<lfloor>a\<rfloor> = a" and "of_int \<lfloor>b\<rfloor> = b" and "a \<le> of_int h" and "of_int h \<le> b"
    and "s < nat (\<lfloor>b\<rfloor> - \<lfloor>a\<rfloor> + 1)"
  shows "randint a b s = Inr h \<longleftrightarrow> s = nat (h - \<lfloor>a\<rfloor>)"
proof -
  have ah: "\<lfloor>a\<rfloor> \<le> h" using assms(3) by (simp add: floor_le_iff)
  have ab: "a \<le> b" using assms(3,4) by linarith
  have "s mod nat (\<lfloor>b\<rfloor> - \<lfloor>a\<rfloor> + 1) = s" using assms(5) by (rule mod_less)
  then have "randint a b s = Inr (\<lfloor>a\<rfloor> + int s)"
    using assms(1,2) ab by (simp add: randint_def)
  then show ?thesis using ah by auto
qed

lemma WallPair_init_Inr:
  assumes "WallPair_init x sh config seed = Inr p"
  shows "\<exists>h. randint (dict_get (Config_get config ''wall_settings'') ''min_height'' 100)
               (dict_get (Config_get config ''wall_settings'') ''max_height'' 400) seed = Inr h
     \<and> p = \<lparr>gap_height = dict_get (Config_get config ''wall_settings'') ''gap_height'' 200,
            min_height = dict_get (Config_get config ''wall_settings'') ''min_height'' 100,
            max_height = dict_get (Config_get config ''wall_settings'') ''max_height'' 400,
            wall_height = h, pair_screen_height = sh,
            walls = [Wall_init x (of_int h) config True,
                     Wall_init x (of_int h + dict_get (Config_get config ''wall_settings'') ''gap_height'' 200) config False],
            scored = False\<rparr>"
  using assms by (auto simp: WallPair_init_def Let_def split: sum.splits)

lemma WallPair_init_wall_height:
  "WallPair_init x sh config s = Inr p' \<Longrightarrow>
     randint (dict_get (Config_get config ''wall_settings'') ''min_height'' 100)
             (dict_get (Config_get config ''wall_settings'') ''max_height'' 400) s
       = Inr (wall_height p')"
  by (auto simp: WallPair_init_def Let_def split: sum.splits)

lemma WallPair_init_of_randint:
  "randint (dict_get (Config_get config ''wall_settings'') ''min_height'' 100)
           (dict_get (Config_get config ''wall_settings'') ''max_height'' 400) s = Inr h \<Longrightarrow>
   \<exists>p'. WallPair_init x sh config s = Inr p' \<and> wall_height p' = h"
  by (simp add: WallPair_init_def Let_def)

lemma Wall_init_rect_y:
  "rect_bottom (wall_rect (Wall_init x y config True)) = to_pos y"
  "rect_top (wall_rect (Wall_init x y config False)) = to_pos y"
  by (simp_all add: Wall_init_def Let_def set_bottomleft_def set_topleft_def get_rect_def
      rect_bottom_def rect_top_def)

text \<open>
  C2 (as amended). A \<open>WallPair\<close> that is constructed has as its \<open>wall_height\<close> the draw of
  \<open>random.randint(min_height, max_height)\<close>: a whole number of \<open>[min_height, max_height]\<close>,
  each one drawn for exactly one of the seeds below the size of the range. Its
  \<open>gap_height\<close> is not drawn: it is the configured value (200 by default), the same for
  every seed. The top wall's bottom edge is \<open>wall_height\<close>, the bottom wall's top edge is
  \<open>wall_height + gap_height\<close> rounded, so top edge = bottom edge + gap when the gap is a
  whole number.
\<close>

theorem WallPair_init_heights:
  assumes "WallPair_init x sh config seed = Inr p"
  shows "randint (min_height p) (max_height p) seed = Inr (wall_height p)
    \<and> min_height p \<le> of_int (wall_height p) \<and> of_int (wall_height p) \<le> max_height p
    \<and> min_height p = dict_get (Config_get config ''wall_settings'') ''min_height'' 100
    \<and> max_height p = dict_get (Config_get config ''wall_settings'') ''max_height'' 400
    \<and> gap_height p = dict_get (Config_get config ''wall_settings'') ''gap_height'' 200
    \<and> (\<forall>seed' p'. WallPair_init x sh config seed' = Inr p' \<longrightarrow> gap_height p' = gap_height p)
    \<and> rect_bottom (wall_rect (top_wall p)) = wall_height p
    \<and> rect_top (wall_rect (bottom_wall p)) = to_pos (of_int (wall_height p) + gap_height p)
    \<and> (of_int \<lfloor>gap_height p\<rfloor> = gap_height p \<longrightarrow>
         of_int (rect_bottom (wall_rect (top_wall p))) + gap_height p
           = of_int (rect_top (wall_rect (bottom_wall p))))
    \<and> (\<forall>h. min_height p \<le> of_int h \<and> of_int h \<le> max_height p \<longrightarrow>
          (\<exists>!s. s < nat (\<lfloor>max_height p\<rfloor> - \<lfloor>min_height p\<rfloor> + 1)
                \<and> (\<exists>p'. WallPair_init x sh config s = Inr p' \<and> wall_height p' = h)))"
proof -
  let ?wc = "Config_get config ''wall_settings''"
  let ?mn = "dict_get ?wc ''min_height'' 100"
  let ?mx = "dict_get ?wc ''max_height'' 400"
  let ?gap = "dict_get ?wc ''gap_height'' 200"
  from WallPair_init_Inr [OF assms] obtain h0 where
    rnd: "randint ?mn ?mx seed = Inr h0" and
    p: "p = \<lparr>gap_height = ?gap, min_height = ?mn, max_height = ?mx,
            wall_height = h0, pair_screen_height = sh,
            walls = [Wall_init x (of_int h0) config True,
                     Wall_init x (of_int h0 + ?gap) config False],
            scored = False\<rparr>"
    by blast
  have fields: "min_height p = ?mn" "max_height p = ?mx" "gap_height p = ?gap"
    "wall_height p = h0"
    by (simp_all add: p)
  have range: "?mn \<le> of_int h0 \<and> of_int h0 \<le> ?mx"
    using rnd by (rule randint_range)
  have ints: "of_int \<lfloor>?mn\<rfloor> = ?mn" "of_int \<lfloor>?mx\<rfloor> = ?mx"
    using rnd by (auto simp: randint_def split: if_splits)
  have same_gap: "gap_height p' = gap_height p"
    if "WallPair_init x sh config seed' = Inr p'" for seed' p'
    using WallPair_init_Inr [OF that] by (auto simp: fields)
  have top: "rect_bottom (wall_rect (top_wall p)) = h0"
    by (simp add: p top_wall_def Wall_init_rect_y)
  have bot: "rect_top (wall_rect (bottom_wall p)) = to_pos (of_int h0 + ?gap)"
    by (simp add: p bottom_wall_def Wall_init_rect_y)
  have exact: "of_int (rect_bottom (wall_rect (top_wall p))) + gap_height p
                 = of_int (rect_top (wall_rect (bottom_wall p)))"
    if g: "of_int \<lfloor>gap_height p\<rfloor> = gap_height p"
  proof -
    from g have G: "of_int \<lfloor>?gap\<rfloor> = ?gap" by (simp only: fields)
    then have "of_int h0 + ?gap = of_int (h0 + \<lfloor>?gap\<rfloor>)" by (simp only: of_int_add)
    then have tp: "to_pos (of_int h0 + ?gap) = h0 + \<lfloor>?gap\<rfloor>"
      by (simp only: to_pos_of_int)
    have "of_int (rect_top (wall_rect (bottom_wall p))) = (of_int (h0 + \<lfloor>?gap\<rfloor>) :: rat)"
      by (simp only: bot tp)
    also have "\<dots> = of_int h0 + ?gap"
      by (simp only: of_int_add G)
    finally show ?thesis
      by (simp only: top fields)
  qed
  have uniform: "\<exists>!s. s < nat (\<lfloor>max_height p\<rfloor> - \<lfloor>min_height p\<rfloor> + 1)
                \<and> (\<exists>p'. WallPair_init x sh config s = Inr p' \<and> wall_height p' = h)"
    if hr: "min_height p \<le> of_int h \<and> of_int h \<le> max_height p" for h
  proof -
    let ?n = "nat (\<lfloor>?mx\<rfloor> - \<lfloor>?mn\<rfloor> + 1)"
    have lo: "?mn \<le> of_int h" and hi: "of_int h \<le> ?mx"
      using hr by (simp_all only: fields)
    have iff: "randint ?mn ?mx s = Inr h \<longleftrightarrow> s = nat (h - \<lfloor>?mn\<rfloor>)" if "s < ?n" for s
      using ints lo hi that by (rule randint_seed_unique)
    have ah: "\<lfloor>?mn\<rfloor> \<le> h" using lo by (simp add: floor_le_iff)
    have hb: "h \<le> \<lfloor>?mx\<rfloor>" using hi by (simp add: le_floor_iff)
    have less: "nat (h - \<lfloor>?mn\<rfloor>) < ?n" using ah hb by linarith
    have ex: "\<exists>p'. WallPair_init x sh config (nat (h - \<lfloor>?mn\<rfloor>)) = Inr p' \<and> wall_height p' = h"
      using iff [OF less] by (intro WallPair_init_of_randint) simp
    have uniq: "s = nat (h - \<lfloor>?mn\<rfloor>)"
      if "s < ?n" and "\<exists>p'. WallPair_init x sh config s = Inr p' \<and> wall_height p' = h" for s
    proof -
      from that(2) obtain p' where "WallPair_init x sh config s = Inr p'" "wall_height p' = h"
        by blast
      then have "randint ?mn ?mx s = Inr h"
        using WallPair_init_wall_height by blast
      then show ?thesis using iff [OF that(1)] by simp
    qed
    show ?thesis
      unfolding fields
      using less ex uniq by (intro ex1I [of _ "nat (h - \<lfloor>?mn\<rfloor>)"]) blast+
  qed
  have link: "randint (min_height p) (max_height p) seed = Inr (wall_height p)"
    using rnd by (simp only: fields)
  show ?thesis
    using link range same_gap top bot exact uniform
    by (simp only: fields) blast
qed

lemma narrow_gap_pair_init: "WallPair_init 600 500 narrow_gap_config 7 = Inr narrow_gap_pair"
  by (simp add: WallPair_init_def narrow_gap_config_def narrow_gap_pair_def Config_get_def
      dict_get_def randint_def Let_def Wall_init_def get_rect_def set_bottomleft_def
      set_topleft_def)

lemma half_gap_pair_init: "WallPair_init 600 500 half_gap_config 7 = Inr half_gap_pair"
proof -
  have "to_pos (107 + 101 / 2) = 158"
    by (simp add: to_pos_def floor_eq_iff)
  then show ?thesis
    by (simp add: WallPair_init_def half_gap_config_def half_gap_pair_def Config_get_def
        dict_get_def randint_def Let_def Wall_init_def get_rect_def set_bottomleft_def
        set_topleft_def)
qed

theorem WallPair_init_heights_witness:
  "WallPair_init 600 500 narrow_gap_config 7 = Inr narrow_gap_pair
   \<and> randint 100 400 7 = Inr 107
   \<and> wall_height narrow_gap_pair = 107
   \<and> gap_height narrow_gap_pair = 50
   \<and> rect_bottom (wall_rect (top_wall narrow_gap_pair)) = 107
   \<and> rect_top (wall_rect (bottom_wall narrow_gap_pair)) = 157
   \<and> WallPair_init 600 500 half_gap_config 7 = Inr half_gap_pair
   \<and> gap_height half_gap_pair = 101 / 2
   \<and> rect_bottom (wall_rect (top_wall half_gap_pair)) = 107
   \<and> rect_top (wall_rect (bottom_wall half_gap_pair)) = 158"
proof -
  note A = WallPair_init_heights [OF narrow_gap_pair_init]
  note B = WallPair_init_heights [OF half_gap_pair_init]
  have f: "min_height narrow_gap_pair = 100" "max_height narrow_gap_pair = 400"
    "wall_height narrow_gap_pair = 107" "gap_height narrow_gap_pair = 50"
    "wall_height half_gap_pair = 107" "gap_height half_gap_pair = 101 / 2"
    by (simp_all add: narrow_gap_pair_def half_gap_pair_def)
  have r: "randint 100 400 7 = Inr 107"
    using A unfolding f by blast
  have t: "rect_bottom (wall_rect (top_wall narrow_gap_pair)) = 107"
    using A unfolding f by blast
  have b: "rect_top (wall_rect (bottom_wall narrow_gap_pair)) = 157"
  proof -
    have "rect_top (wall_rect (bottom_wall narrow_gap_pair)) = to_pos (of_int 107 + 50)"
      using A unfolding f by blast
    then show ?thesis by simp
  qed
  have t2: "rect_bottom (wall_rect (top_wall half_gap_pair)) = 107"
    using B unfolding f by blast
  have b2: "rect_top (wall_rect (bottom_wall half_gap_pair)) = 158"
  proof -
    have "rect_top (wall_rect (bottom_wall half_gap_pair)) = to_pos (of_int 107 + 101 / 2)"
      using B unfolding f by blast
    then show ?thesis by (simp add: to_pos_def floor_eq_iff)
  qed
  show ?thesis
    using narrow_gap_pair_init half_gap_pair_init r f t b t2 b2 by blast
qed

text \<open>With a configured gap of 50 the pair's \<open>gap_height\<close> is 50, below \<open>min_height\<close> = 100.\<close>

theorem gap_height_below_min_height:
  "WallPair_init 600 500 narrow_gap_config 7 = Inr narrow_gap_pair
   \<and> gap_height narrow_gap_pair < min_height narrow_gap_pair"
  by (simp add: narrow_gap_pair_init) (simp add: narrow_gap_pair_def)

section \<open>Pairs: scoring\<close>

lemma WallPair_check_pass_scored: "scored p \<Longrightarrow> WallPair_check_pass r p = (False, p)"
  by (simp add: WallPair_check_pass_def)

lemma WallPair_check_pass_fired:
  "fst (WallPair_check_pass r p) \<Longrightarrow> \<not> scored p \<and> scored (snd (WallPair_check_pass r p))"
  by (auto simp: WallPair_check_pass_def split: if_splits prod.splits bool.splits)

lemma WallPair_check_pass_quiet:
  "\<not> fst (WallPair_check_pass r p) \<Longrightarrow> scored (snd (WallPair_check_pass r p)) = scored p"
  by (auto simp: WallPair_check_pass_def split: if_splits prod.splits bool.splits)

lemma check_pass_walls_fst:
  "fst (check_pass_walls r ws) \<longleftrightarrow>
     (\<exists>w\<in>set ws. \<not> passed w \<and> rect_right (wall_rect w) < rect_left r)"
proof (induction ws)
  case Nil
  show ?case by simp
next
  case (Cons w ws)
  show ?case
  proof (cases "\<not> passed w \<and> rect_right (wall_rect w) < rect_left r")
    case True
    then show ?thesis by (simp add: Wall_check_pass_def)
  next
    case False
    then show ?thesis
      using Cons.IH by (auto simp: Wall_check_pass_def split_beta)
  qed
qed

lemma WallPair_check_pass_fst:
  "fst (WallPair_check_pass r p) \<longleftrightarrow>
     \<not> scored p \<and> (\<exists>w\<in>set (walls p). \<not> passed w \<and> rect_right (wall_rect w) < rect_left r)"
proof (cases "scored p")
  case True
  then show ?thesis by (simp add: WallPair_check_pass_def)
next
  case False
  have "fst (WallPair_check_pass r p) = fst (check_pass_walls r (walls p))"
    using False by (simp add: WallPair_check_pass_def split: prod.splits bool.splits)
  then show ?thesis
    using False by (simp add: check_pass_walls_fst)
qed

lemma WallPair_update_scored [simp]: "scored (WallPair_update p) = scored p"
  by (simp add: WallPair_update_def)

lemma run_pair_scored:
  "scored p \<Longrightarrow> True \<notin> set (fst (run_pair ops p)) \<and> scored (snd (run_pair ops p))"
proof (induction ops arbitrary: p)
  case Nil
  then show ?case by simp
next
  case (Cons op ops)
  show ?case
  proof (cases op)
    case PUpdate
    then show ?thesis using Cons.IH [of "WallPair_update p"] Cons.prems by simp
  next
    case (PCheckPass r)
    then show ?thesis
      using Cons.IH [of p] Cons.prems
      by (simp add: WallPair_check_pass_scored split_beta)
  qed
qed

lemma filter_id_no_True: "True \<notin> set bs \<Longrightarrow> filter id bs = []"
  by (induction bs) auto

lemma run_pair_count_le: "length (filter id (fst (run_pair ops p))) \<le> 1"
proof (induction ops arbitrary: p)
  case Nil
  show ?case by simp
next
  case (Cons op ops)
  show ?case
  proof (cases op)
    case PUpdate
    then show ?thesis using Cons.IH [of "WallPair_update p"] by simp
  next
    case (PCheckPass r)
    show ?thesis
    proof (cases "fst (WallPair_check_pass r p)")
      case True
      then have "scored (snd (WallPair_check_pass r p))"
        by (simp add: WallPair_check_pass_fired)
      then have "filter id (fst (run_pair ops (snd (WallPair_check_pass r p)))) = []"
        by (simp add: run_pair_scored filter_id_no_True)
      then show ?thesis
        using PCheckPass True by (simp add: split_beta id_def)
    next
      case False
      then show ?thesis
        using PCheckPass Cons.IH [of "snd (WallPair_check_pass r p)"] by (simp add: split_beta)
    qed
  qed
qed

lemma pairs_loop_eq:
  "pairs_loop br ps st sc =
     (filter (\<lambda>p. \<not> WallPair_is_offscreen p)
        (map (\<lambda>p. snd (WallPair_check_pass br (WallPair_update p))) ps),
      if list_ex (\<lambda>p. WallPair_check_collisions br (WallPair_update p)) ps then StatusMenu else st,
      sc + int (length (filter (\<lambda>p. fst (WallPair_check_pass br (WallPair_update p))) ps)))"
proof (induction ps arbitrary: st sc)
  case Nil
  show ?case by simp
next
  case (Cons p ps)
  show ?case
    by (simp add: Cons.IH Let_def split_beta)
qed

lemma unscored_Cons: "unscored (p # ps) = (if scored p then 0 else 1) + unscored ps"
  by (simp add: unscored_def)

lemma tick_count:
  "length (filter (\<lambda>p. fst (WallPair_check_pass br (WallPair_update p))) ps)
     + unscored (filter (\<lambda>p. \<not> WallPair_is_offscreen p)
         (map (\<lambda>p. snd (WallPair_check_pass br (WallPair_update p))) ps))
   \<le> unscored ps"
proof (induction ps)
  case Nil
  show ?case by (simp add: unscored_def)
next
  case (Cons p ps)
  show ?case
  proof (cases "fst (WallPair_check_pass br (WallPair_update p))")
    case True
    from WallPair_check_pass_fired [OF True]
    have "\<not> scored p" and "scored (snd (WallPair_check_pass br (WallPair_update p)))"
      by simp_all
    then show ?thesis
      using Cons.IH True by (simp add: unscored_Cons)
  next
    case False
    from WallPair_check_pass_quiet [OF False]
    have "scored (snd (WallPair_check_pass br (WallPair_update p))) = scored p"
      by simp
    then show ?thesis
      using Cons.IH False by (simp add: unscored_Cons)
  qed
qed

lemma update_game_logic_menu: "game_status g = StatusMenu \<Longrightarrow> update_game_logic g = g"
  by (simp add: update_game_logic_def)

lemma update_game_logic_game:
  assumes "game_status g = StatusGame"
    and "br = bird_rect (snd (check_bounds (g_height g) (Bird_update (g_bird g))))"
  shows "g_bird (update_game_logic g) = snd (check_bounds (g_height g) (Bird_update (g_bird g)))"
    and "wall_pairs (update_game_logic g) =
           filter (\<lambda>p. \<not> WallPair_is_offscreen p)
             (map (\<lambda>p. snd (WallPair_check_pass br (WallPair_update p))) (wall_pairs g))"
    and "score (update_game_logic g) =
           score g + int (length (filter (\<lambda>p. fst (WallPair_check_pass br (WallPair_update p)))
             (wall_pairs g)))"
    and "game_status (update_game_logic g) =
           (if fst (check_bounds (g_height g) (Bird_update (g_bird g))) = Some Bottom
               \<or> list_ex (\<lambda>p. WallPair_check_collisions br (WallPair_update p)) (wall_pairs g)
            then StatusMenu else StatusGame)"
  using assms by (simp_all add: update_game_logic_def pairs_loop_eq split_beta Let_def)

lemma update_game_logic_potential:
  "score (update_game_logic g) + int (unscored (wall_pairs (update_game_logic g)))
     \<le> score g + int (unscored (wall_pairs g))
   \<and> score g \<le> score (update_game_logic g)"
proof (cases "game_status g")
  case StatusMenu
  then show ?thesis by (simp add: update_game_logic_menu)
next
  case StatusGame
  let ?br = "bird_rect (snd (check_bounds (g_height g) (Bird_update (g_bird g))))"
  show ?thesis
    using tick_count [of ?br "wall_pairs g"]
    by (simp add: update_game_logic_game(2,3) [OF StatusGame refl])
qed

lemma funpow_update_game_logic_potential:
  "score ((update_game_logic ^^ n) g) + int (unscored (wall_pairs ((update_game_logic ^^ n) g)))
     \<le> score g + int (unscored (wall_pairs g))
   \<and> score g \<le> score ((update_game_logic ^^ n) g)"
proof (induction n)
  case 0
  show ?case by simp
next
  case (Suc n)
  show ?case
    using Suc.IH update_game_logic_potential [of "(update_game_logic ^^ n) g"]
    by simp
qed

section \<open>The tick of the game\<close>

lemma floor_game_bird:
  "check_bounds (g_height floor_game) (Bird_update (g_bird floor_game)) =
     (Some Bottom, (Bird_update (Bird_init 100 480 Map.empty))
        \<lparr>bird_rect := \<lparr>rect_x = 70, rect_y = 465, rect_w = 60, rect_h = 35\<rparr>, bird_y := 465\<rparr>)"
  by (simp add: floor_game_def check_bounds_def low_bird_eval rect_top_def rect_bottom_def
      set_rect_bottom_def Let_def)

lemma floor_game_tick:
  "game_status (update_game_logic floor_game) = StatusMenu"
  "score (update_game_logic floor_game) = 1"
  "length (wall_pairs (update_game_logic floor_game)) = 1"
  "map wall_x (walls (hd (wall_pairs (update_game_logic floor_game)))) = [- 32, - 32]"
  "scored (hd (wall_pairs (update_game_logic floor_game)))"
  by (simp_all add: update_game_logic_def floor_game_bird)
    (simp_all add: floor_game_def gone_pair_def pass_pair_def WallPair_update_def
      WallPair_check_pass_def WallPair_check_collisions_def
      WallPair_is_offscreen_def Wall_update_def Wall_init_def Wall_check_pass_def
      Wall_check_collision_def Wall_is_offscreen_def colliderect_def
      Config_get_def dict_get_def get_rect_def set_rect_x_def
      set_topleft_def set_bottomleft_def
      rect_left_def rect_right_def Let_def)

lemma hit_game_bird:
  "check_bounds (g_height hit_game) (Bird_update (g_bird hit_game)) =
     (None, Bird_update (Bird_init 100 250 Map.empty))"
  "bird_rect (Bird_update (Bird_init 100 250 Map.empty)) =
     \<lparr>rect_x = 70, rect_y = 250, rect_w = 60, rect_h = 35\<rparr>"
proof -
  show r: "bird_rect (Bird_update (Bird_init 100 250 Map.empty)) =
     \<lparr>rect_x = 70, rect_y = 250, rect_w = 60, rect_h = 35\<rparr>"
    by (simp add: Bird_update_def Bird_init_def Let_def Config_get_def dict_get_def
        get_rect_center_def get_rect_def set_rect_y_def to_pos_fractions)
  show "check_bounds (g_height hit_game) (Bird_update (g_bird hit_game)) =
     (None, Bird_update (Bird_init 100 250 Map.empty))"
    by (simp add: hit_game_def check_bounds_def r rect_top_def rect_bottom_def)
qed

lemma hit_game_tick:
  "WallPair_check_collisions (bird_rect (g_bird (update_game_logic hit_game)))
     (WallPair_update hit_pair)"
  "game_status (update_game_logic hit_game) = StatusMenu"
  "score (update_game_logic hit_game) = 0"
  "length (wall_pairs (update_game_logic hit_game)) = 2"
  "map wall_x (walls (last (wall_pairs (update_game_logic hit_game)))) = [308, 308]"
  by (simp_all add: update_game_logic_def hit_game_bird)
    (simp_all add: hit_game_bird hit_game_def hit_pair_def later_pair_def WallPair_update_def
      WallPair_check_pass_def WallPair_check_collisions_def
      WallPair_is_offscreen_def Wall_update_def Wall_init_def Wall_check_pass_def
      Wall_check_collision_def Wall_is_offscreen_def colliderect_def
      Config_get_def dict_get_def get_rect_def set_rect_x_def
      set_topleft_def set_bottomleft_def
      rect_left_def rect_right_def Let_def)

lemma floor_game_count:
  "length (filter (\<lambda>p. fst (WallPair_check_pass \<lparr>rect_x = 70, rect_y = 465, rect_w = 60, rect_h = 35\<rparr>
       (WallPair_update p))) (wall_pairs floor_game)) = 1"
  by (simp add: floor_game_def gone_pair_def pass_pair_def WallPair_update_def
      WallPair_check_pass_def Wall_update_def Wall_init_def Wall_check_pass_def
      Config_get_def dict_get_def get_rect_def set_rect_x_def set_topleft_def set_bottomleft_def
      rect_left_def rect_right_def Let_def)

lemma hit_pair_eval:
  "\<not> scored (WallPair_update hit_pair)"
  "\<not> (\<exists>w\<in>set (walls (WallPair_update hit_pair)).
        \<not> passed w \<and> rect_right (wall_rect w) < rect_left avatar_rect)"
  by (simp_all add: hit_pair_def avatar_rect_def WallPair_update_def
      Wall_update_def Wall_init_def Bird_init_def
      Config_get_def dict_get_def get_rect_def get_rect_center_def set_rect_x_def
      set_topleft_def set_bottomleft_def rect_left_def rect_right_def Let_def)

lemma pass_pair_eval:
  "list_all (\<lambda>w. rect_right (wall_rect w) < rect_left avatar_rect) (walls (WallPair_update pass_pair))"
  "fst (WallPair_check_pass avatar_rect (WallPair_update pass_pair))"
  "fst (run_pair [PUpdate, PCheckPass avatar_rect, PCheckPass avatar_rect, PUpdate,
        PCheckPass avatar_rect] pass_pair) = [True, False, False]"
  by (simp_all add: pass_pair_def avatar_rect_def WallPair_update_def
      WallPair_check_pass_def Wall_update_def Wall_init_def Wall_check_pass_def Bird_init_def
      Config_get_def dict_get_def get_rect_def get_rect_center_def set_rect_x_def
      set_topleft_def set_bottomleft_def rect_left_def rect_right_def Let_def)

text \<open>
  C1 (as amended). While the status is \<open>'game'\<close>, \<open>update_game_logic\<close> runs its whole body
  whether or not the status changes on the way: the bird is updated and bounds-checked,
  then every pair of the list is updated, checked for a collision, checked for a pass
  (each pass adding 1 to the score) and taken out of the list if it is off screen. The
  status ends as \<open>'menu'\<close> exactly when the bounds check answered \<open>'bottom'\<close> or some pair
  collided. Only the ticks after that, with status \<open>'menu'\<close>, do nothing.
\<close>

theorem tick_processes_every_pair:
  assumes "br = bird_rect (snd (check_bounds (g_height g) (Bird_update (g_bird g))))"
  shows "(game_status g = StatusMenu \<longrightarrow> update_game_logic g = g)
   \<and> (game_status g = StatusGame \<longrightarrow>
        g_bird (update_game_logic g) = snd (check_bounds (g_height g) (Bird_update (g_bird g)))
      \<and> wall_pairs (update_game_logic g) =
          filter (\<lambda>p. \<not> WallPair_is_offscreen p)
            (map (\<lambda>p. snd (WallPair_check_pass br (WallPair_update p))) (wall_pairs g))
      \<and> score (update_game_logic g) =
          score g + int (length (filter (\<lambda>p. fst (WallPair_check_pass br (WallPair_update p)))
            (wall_pairs g)))
      \<and> (game_status (update_game_logic g) = StatusMenu \<longleftrightarrow>
           fst (check_bounds (g_height g) (Bird_update (g_bird g))) = Some Bottom
           \<or> list_ex (\<lambda>p. WallPair_check_collisions br (WallPair_update p)) (wall_pairs g)))"
proof -
  have "game_status (update_game_logic g) = StatusMenu \<longleftrightarrow>
           fst (check_bounds (g_height g) (Bird_update (g_bird g))) = Some Bottom
           \<or> list_ex (\<lambda>p. WallPair_check_collisions br (WallPair_update p)) (wall_pairs g)"
    if "game_status g = StatusGame"
    using update_game_logic_game(4) [OF that assms] by simp
  then show ?thesis
    using update_game_logic_game(1,2,3) [OF _ assms]
    by (simp add: update_game_logic_menu)
qed

theorem tick_processes_every_pair_witness:
  "game_status floor_game = StatusGame
   \<and> \<lparr>rect_x = 70, rect_y = 465, rect_w = 60, rect_h = 35\<rparr>
       = bird_rect (snd (check_bounds (g_height floor_game) (Bird_update (g_bird floor_game))))
   \<and> score (update_game_logic floor_game) = 1
   \<and> game_status (update_game_logic floor_game) = StatusMenu
   \<and> game_status ended_game = StatusMenu
   \<and> update_game_logic ended_game = ended_game"
proof -
  let ?br = "\<lparr>rect_x = 70, rect_y = 465, rect_w = 60, rect_h = 35\<rparr>"
  have st: "game_status floor_game = StatusGame"
    by (simp add: floor_game_def)
  have br: "?br = bird_rect (snd (check_bounds (g_height floor_game)
      (Bird_update (g_bird floor_game))))"
    by (simp add: floor_game_bird)
  have bottom: "fst (check_bounds (g_height floor_game) (Bird_update (g_bird floor_game)))
      = Some Bottom"
    by (simp add: floor_game_bird)
  note T = tick_processes_every_pair [OF br, THEN conjunct2, THEN mp, OF st]
  have "score (update_game_logic floor_game) = score floor_game + 1"
    using T floor_game_count by simp
  then have sc: "score (update_game_logic floor_game) = 1"
    by (simp add: floor_game_def)
  have ended: "game_status (update_game_logic floor_game) = StatusMenu"
    using T bottom by blast
  have m: "game_status ended_game = StatusMenu"
    by (simp add: ended_game_def)
  have same: "update_game_logic ended_game = ended_game"
    using tick_processes_every_pair [OF refl, of ended_game] m by blast
  show ?thesis
    using st br sc ended m same by blast
qed

text \<open>
  Nothing is skipped when the game ends inside a tick. In \<open>floor_game\<close> the bounds check
  answers \<open>'bottom'\<close>, and still the pairs are moved, a pass is scored and the off-screen pair
  is removed. In \<open>hit_game\<close> the first pair collides, and still the second pair is moved.
\<close>

theorem ended_tick_keeps_processing:
  "game_status floor_game = StatusGame
   \<and> fst (check_bounds (g_height floor_game) (Bird_update (g_bird floor_game))) = Some Bottom
   \<and> game_status (update_game_logic floor_game) = StatusMenu
   \<and> score floor_game = 0
   \<and> score (update_game_logic floor_game) = 1
   \<and> length (wall_pairs floor_game) = 2
   \<and> length (wall_pairs (update_game_logic floor_game)) = 1
   \<and> map wall_x (walls pass_pair) = [- 30, - 30]
   \<and> map wall_x (walls (hd (wall_pairs (update_game_logic floor_game)))) = [- 32, - 32]
   \<and> game_status hit_game = StatusGame
   \<and> wall_pairs hit_game = [hit_pair, later_pair]
   \<and> WallPair_check_collisions (bird_rect (g_bird (update_game_logic hit_game)))
        (WallPair_update hit_pair)
   \<and> game_status (update_game_logic hit_game) = StatusMenu
   \<and> map wall_x (walls later_pair) = [310, 310]
   \<and> map wall_x (walls (last (wall_pairs (update_game_logic hit_game)))) = [308, 308]"
  by (simp add: floor_game_tick hit_game_tick floor_game_bird)
    (simp add: floor_game_def hit_game_def pass_pair_def later_pair_def Wall_init_def Let_def)

text \<open>
  C5. \<open>WallPair.check_pass\<close> answers true exactly when the pair is not yet scored and one of
  its walls is unpassed with its right edge strictly left of the rectangle's left edge.
  It answers true at most once in the life of a pair, whatever the sequence of updates
  and checks and whatever the rectangles, also when both walls meet the condition: a
  scored pair answers false and stays as it is, and an answer true sets \<open>scored\<close>, which
  \<open>update\<close> keeps. In a tick the score grows by the number of pairs whose \<open>check_pass\<close>
  answered true; over any number of ticks it never decreases, and score plus the number of
  unscored pairs in the list never grows, so a pair adds 1 to the score once and never
  again, however long it stays in the list.
\<close>

theorem pair_scores_at_most_once:
  "(scored p \<longrightarrow> WallPair_check_pass r p = (False, p))
   \<and> (fst (WallPair_check_pass r p) \<longleftrightarrow>
        \<not> scored p
        \<and> (\<exists>w\<in>set (walls p). \<not> passed w \<and> rect_right (wall_rect w) < rect_left r))
   \<and> (fst (WallPair_check_pass r p) \<longrightarrow> \<not> scored p \<and> scored (snd (WallPair_check_pass r p)))
   \<and> scored (WallPair_update p) = scored p
   \<and> length (filter id (fst (run_pair ops p))) \<le> 1
   \<and> (game_status g = StatusGame \<longrightarrow>
        score (update_game_logic g) =
          score g + int (length (filter
            (\<lambda>p. fst (WallPair_check_pass
                        (bird_rect (snd (check_bounds (g_height g) (Bird_update (g_bird g)))))
                        (WallPair_update p)))
            (wall_pairs g))))
   \<and> score g \<le> score ((update_game_logic ^^ n) g)
   \<and> score ((update_game_logic ^^ n) g) + int (unscored (wall_pairs ((update_game_logic ^^ n) g)))
        \<le> score g + int (unscored (wall_pairs g))"
proof -
  have fires: "fst (WallPair_check_pass r p) \<longleftrightarrow>
        \<not> scored p
        \<and> (\<exists>w\<in>set (walls p). \<not> passed w \<and> rect_right (wall_rect w) < rect_left r)"
    by (rule WallPair_check_pass_fst)
  have rest: "(scored p \<longrightarrow> WallPair_check_pass r p = (False, p))
   \<and> (fst (WallPair_check_pass r p) \<longrightarrow> \<not> scored p \<and> scored (snd (WallPair_check_pass r p)))
   \<and> scored (WallPair_update p) = scored p
   \<and> length (filter id (fst (run_pair ops p))) \<le> 1
   \<and> (game_status g = StatusGame \<longrightarrow>
        score (update_game_logic g) =
          score g + int (length (filter
            (\<lambda>p. fst (WallPair_check_pass
                        (bird_rect (snd (check_bounds (g_height g) (Bird_update (g_bird g)))))
                        (WallPair_update p)))
            (wall_pairs g))))
   \<and> score g \<le> score ((update_game_logic ^^ n) g)
   \<and> score ((update_game_logic ^^ n) g) + int (unscored (wall_pairs ((update_game_logic ^^ n) g)))
        \<le> score g + int (unscored (wall_pairs g))"
    using funpow_update_game_logic_potential [of n g] run_pair_count_le [of ops p]
      update_game_logic_game(3) [OF _ refl, of g]
    by (simp add: WallPair_check_pass_scored WallPair_check_pass_fired)
  from fires rest show ?thesis by blast
qed

theorem pair_scores_at_most_once_witness:
  "scored gone_pair
   \<and> WallPair_check_pass avatar_rect gone_pair = (False, gone_pair)
   \<and> list_all (\<lambda>w. rect_right (wall_rect w) < rect_left avatar_rect)
        (walls (WallPair_update pass_pair))
   \<and> fst (WallPair_check_pass avatar_rect (WallPair_update pass_pair))
   \<and> \<not> scored (WallPair_update pass_pair)
   \<and> scored (snd (WallPair_check_pass avatar_rect (WallPair_update pass_pair)))
   \<and> \<not> scored (WallPair_update hit_pair)
   \<and> \<not> fst (WallPair_check_pass avatar_rect (WallPair_update hit_pair))
   \<and> fst (run_pair [PUpdate, PCheckPass avatar_rect, PCheckPass avatar_rect, PUpdate,
        PCheckPass avatar_rect] pass_pair) = [True, False, False]
   \<and> game_status floor_game = StatusGame
   \<and> score floor_game = 0
   \<and> unscored (wall_pairs floor_game) = 1
   \<and> score (update_game_logic floor_game) = 1
   \<and> score ((update_game_logic ^^ 3) floor_game) \<le> 1"
proof -
  have g: "scored gone_pair" by (simp add: gone_pair_def)
  have st: "game_status floor_game = StatusGame" and s0: "score floor_game = 0"
    and u: "unscored (wall_pairs floor_game) = 1"
    by (simp_all add: floor_game_def unscored_def gone_pair_def pass_pair_def)
  note A = pair_scores_at_most_once [of gone_pair avatar_rect "[]" floor_game 3]
  note B = pair_scores_at_most_once [of "WallPair_update pass_pair" avatar_rect "[]" floor_game 3]
  note C = pair_scores_at_most_once [of "WallPair_update hit_pair" avatar_rect "[]" floor_game 3]
  have a: "WallPair_check_pass avatar_rect gone_pair = (False, gone_pair)"
    using A g by blast
  have b: "\<not> scored (WallPair_update pass_pair)
      \<and> scored (snd (WallPair_check_pass avatar_rect (WallPair_update pass_pair)))"
    using B pass_pair_eval(2) by blast
  have h: "\<not> fst (WallPair_check_pass avatar_rect (WallPair_update hit_pair))"
    using C hit_pair_eval(2) by blast
  have "score (update_game_logic floor_game) =
      score floor_game + int (length (filter
        (\<lambda>p. fst (WallPair_check_pass
           (bird_rect (snd (check_bounds (g_height floor_game) (Bird_update (g_bird floor_game)))))
           (WallPair_update p)))
        (wall_pairs floor_game)))"
    using A st by blast
  then have c: "score (update_game_logic floor_game) = 1"
    using floor_game_count by (simp add: floor_game_bird s0)
  have "score ((update_game_logic ^^ 3) floor_game)
      + int (unscored (wall_pairs ((update_game_logic ^^ 3) floor_game)))
      \<le> score floor_game + int (unscored (wall_pairs floor_game))"
    using A by blast
  then have d: "score ((update_game_logic ^^ 3) floor_game) \<le> 1"
    using s0 u by linarith
  show ?thesis
    using g a pass_pair_eval b hit_pair_eval(1) h st s0 u c d by blast
qed

end
